theory Spec2Isabelle
  imports Main
begin

text \<open>
  A model of parts of the email authentication library \<^verbatim>\<open>mailauth\<close> (version 2.3.1):
  the helper functions of \<^verbatim>\<open>lib/tools.js\<close> (relaxed header canonicalization, DKIM key
  resolution, DMARC alignment, signature header lines, the logo of a Verified Mark
  Certificate) and the SPF check of \<^verbatim>\<open>lib/spf/index.js\<close> with its counting resolver.
  Functions of Node.js and of third-party packages, and the modules of the library that
  are not modelled, are parameters. An asynchronous function is modelled by what it
  resolves to; an exception or a rejected promise is the left summand of the result.

  The first part holds the definitions, each next to the code it is taken from; the
  second part holds the properties.
\<close>

section \<open>JavaScript strings\<close>

text \<open>
  A JavaScript string is modelled as a \<^typ>\<open>string\<close>, one \<^typ>\<open>char\<close> per code unit
  below 256. That is exact for the \<^verbatim>\<open>binary\<close> (latin1) strings that
  \<^verbatim>\<open>formatRelaxedLine\<close> works on; elsewhere it restricts the model to text whose code
  units are below 256.

  \<^verbatim>\<open>\s\<close> in a regular expression and \<^verbatim>\<open>String.prototype.trim\<close> use the same set of
  white space and line terminators; below 256 these are TAB, LF, VT, FF, CR, SP and NBSP.
\<close>

definition isWhiteSpace :: "char \<Rightarrow> bool" where
  "isWhiteSpace c \<longleftrightarrow>
     c \<in> set [CHR 0x09, CHR 0x0A, CHR 0x0B, CHR 0x0C, CHR 0x0D, CHR 0x20, CHR 0xA0]"

text \<open>
  \<^verbatim>\<open>toLowerCase\<close> below 256: \<^verbatim>\<open>A-Z\<close> and the Latin-1 capitals \<^verbatim>\<open>0xC0-0xDE\<close>
  (but the multiplication sign \<^verbatim>\<open>0xD7\<close>) move up by 32.
\<close>

definition toLowerChar :: "char \<Rightarrow> char" where
  "toLowerChar c =
     (let n = (of_char c :: nat)
      in if (65 \<le> n \<and> n \<le> 90) \<or> (192 \<le> n \<and> n \<le> 222 \<and> n \<noteq> 215)
         then char_of (n + 32) else c)"

definition toLowerCase :: "string \<Rightarrow> string" where
  "toLowerCase s = map toLowerChar s"

definition trimStart :: "string \<Rightarrow> string" where
  "trimStart s = dropWhile isWhiteSpace s"

definition trimEnd :: "string \<Rightarrow> string" where
  "trimEnd s = rev (dropWhile isWhiteSpace (rev s))"

definition trim :: "string \<Rightarrow> string" where
  "trim s = trimEnd (trimStart s)"

definition CRLF :: string where
  "CRLF = [CHR 0x0D, CHR 0x0A]"

section \<open>Relaxed header canonicalization: \<^verbatim>\<open>formatRelaxedLine\<close>\<close>

text \<open>
  \<^verbatim>\<open>
  const formatRelaxedLine = (line, suffix) => {
      let result =
          line
              ?.toString('binary')
              // unfold
              .replace(/\r?\n/g, '')
              // key to lowercase, trim around :
              .replace(/^([^:]*):\s*/, (m, k) => k.toLowerCase().trim() + ':')
              // single WSP
              .replace(/\s+/g, ' ')
              .trim() + (suffix ? suffix : '');
      return Buffer.from(result, 'binary');
  };
  \<close>
  The line is a \<^verbatim>\<open>Buffer\<close>; read as \<^verbatim>\<open>binary\<close> it is the string of its bytes, and
  the result is written back the same way.

  \<^verbatim>\<open>.replace(/\r?\n/g, '')\<close> scans from the left and deletes every LF, together with
  a CR that stands right before it; a CR not followed by LF stays.
\<close>

fun unfoldLine :: "string \<Rightarrow> string" where
  "unfoldLine [] = []"
| "unfoldLine [c] = (if c = CHR 0x0A then [] else [c])"
| "unfoldLine (c # d # cs) =
     (if c = CHR 0x0A then unfoldLine (d # cs)
      else if c = CHR 0x0D \<and> d = CHR 0x0A then unfoldLine cs
      else c # unfoldLine (d # cs))"

text \<open>
  \<^verbatim>\<open>.replace(/\s+/g, ' ')\<close>: every maximal run of white space becomes one SP.
\<close>

function collapseWhiteSpace :: "string \<Rightarrow> string" where
  "collapseWhiteSpace [] = []"
| "collapseWhiteSpace (c # cs) =
     (if isWhiteSpace c then CHR 0x20 # collapseWhiteSpace (dropWhile isWhiteSpace cs)
      else c # collapseWhiteSpace cs)"
  by pat_completeness auto
termination
  by (relation "measure length") (auto simp: length_dropWhile_le less_Suc_eq_le)

text \<open>
  \<^verbatim>\<open>.replace(/^([^:]*):\s*/, (m, k) => k.toLowerCase().trim() + ':')\<close>: the pattern
  matches only when the string has a colon; then the group is everything before the first
  colon, and the white space after that colon goes with the match. Without a colon the
  string is left as it is.
\<close>

definition lowerKey :: "string \<Rightarrow> string" where
  "lowerKey s =
     (if CHR '':'' \<in> set s
      then trim (toLowerCase (takeWhile (\<lambda>c. c \<noteq> CHR '':'') s)) @ '':'' @
           dropWhile isWhiteSpace (tl (dropWhile (\<lambda>c. c \<noteq> CHR '':'') s))
      else s)"

text \<open>
  \<^verbatim>\<open>suffix ? suffix : ''\<close>: a missing suffix (\<^const>\<open>None\<close>) and the empty string both
  add nothing.
\<close>

definition formatRelaxedLine :: "string \<Rightarrow> string option \<Rightarrow> string" where
  "formatRelaxedLine line suffix =
     trim (collapseWhiteSpace (lowerKey (unfoldLine line))) @
     (case suffix of None \<Rightarrow> [] | Some s \<Rightarrow> s)"

text \<open>
  The words of the specification, for comparison with the code: the key of the canonical
  line, its value, and a line in which white space only occurs as single SPs.
\<close>

fun singleSpaced :: "string \<Rightarrow> bool" where
  "singleSpaced [] = True"
| "singleSpaced [c] = (isWhiteSpace c \<longrightarrow> c = CHR 0x20)"
| "singleSpaced (c # d # cs) =
     ((isWhiteSpace c \<longrightarrow> c = CHR 0x20 \<and> \<not> isWhiteSpace d) \<and> singleSpaced (d # cs))"

definition relaxedKey :: "string \<Rightarrow> string" where
  "relaxedKey line =
     collapseWhiteSpace (trim (toLowerCase (takeWhile (\<lambda>c. c \<noteq> CHR '':'') (unfoldLine line))))"

definition relaxedValue :: "string \<Rightarrow> string" where
  "relaxedValue line =
     trimEnd (collapseWhiteSpace (trimStart (tl (dropWhile (\<lambda>c. c \<noteq> CHR '':'') (unfoldLine line)))))"

section \<open>DKIM key resolution: \<^verbatim>\<open>getPublicKey\<close>\<close>

text \<open>
  An error object as the functions of \<^verbatim>\<open>tools.js\<close> throw or let through: an
  \<^verbatim>\<open>Error\<close> with its message, its \<^verbatim>\<open>code\<close> and the \<^verbatim>\<open>rr\<close> attached to it (either may
  be missing), or a \<^verbatim>\<open>ReferenceError\<close> or \<^verbatim>\<open>TypeError\<close> of the runtime.
\<close>

datatype js_error =
  Error string "string option" "string option"
  | ReferenceError string
  | TypeError string

text \<open>
  What \<^verbatim>\<open>crypto.createPublicKey\<close> hands back, as far as the code reads it:
  \<^verbatim>\<open>asymmetricKeyType\<close> and \<^verbatim>\<open>modulusLength\<close> (\<^const>\<open>None\<close> when the object has no
  such property).
\<close>

record public_key =
  asymmetricKeyType :: string
  modulusLength :: "nat option"

text \<open>
  The collaborators of \<^verbatim>\<open>getPublicKey\<close> that are not part of the function:
  \<^item> \<^verbatim>\<open>resolver(name, 'TXT')\<close>, the injected DNS resolver: it throws, or answers with a
    list of TXT records, each a list of string fragments (\<^const>\<open>None\<close> is a falsy answer);
  \<^item> \<^verbatim>\<open>parseDkimHeaders\<close> (\<^verbatim>\<open>./parse-dkim-headers\<close>), taken as a parameter: the tags it
    finds, each with its \<^verbatim>\<open>value\<close> (a missing \<^verbatim>\<open>value\<close> reads as the empty string,
    which the code does not tell apart);
  \<^item> \<^verbatim>\<open>crypto.createPublicKey\<close>, which throws on a key it cannot read;
  \<^item> whether the identifier \<^verbatim>\<open>publicKeyPem\<close> is bound. The module is in strict mode and
    declares no such variable, so the assignment \<^verbatim>\<open>publicKeyPem = Buffer.from(...)\<close> throws
    a \<^verbatim>\<open>ReferenceError\<close> unless the global object already has a property of that name. In
    a plain Node.js process it has none.
\<close>

record key_env =
  resolver :: "string \<Rightarrow> string \<Rightarrow> js_error + string list list option"
  parseDkimHeaders :: "string \<Rightarrow> (string \<rightharpoonup> string)"
  createPublicKey :: "string \<Rightarrow> js_error + public_key"
  globalPublicKeyPem :: bool

record key_result =
  publicKey :: string
  rr :: string

text \<open>
  \<^verbatim>\<open>
  let list = await resolver(name, 'TXT');
  let rr =
      list &&
      []
          .concat(list[0] || [])
          .join('')
          .replace(/\s+/g, '');
  \<close>
  Only the first TXT record is read; its fragments are joined and all white space is
  taken out.
\<close>

definition removeWhiteSpace :: "string \<Rightarrow> string" where
  "removeWhiteSpace s = filter (\<lambda>c. \<not> isWhiteSpace c) s"

definition keyRecord :: "string list list option \<Rightarrow> string option" where
  "keyRecord list =
     (case list of
        None \<Rightarrow> None
      | Some records \<Rightarrow>
          Some (removeWhiteSpace (concat (case records of [] \<Rightarrow> [] | first # _ \<Rightarrow> first))))"

definition parserInput :: "string \<Rightarrow> string" where
  "parserInput r = ''DNS: TXT;'' @ r"

definition publicKeyPem :: "string \<Rightarrow> string" where
  "publicKeyPem key =
     ''-----BEGIN PUBLIC KEY-----'' @ [CHR 0x0A] @ key @ [CHR 0x0A] @ ''-----END PUBLIC KEY-----''"

definition tagValue :: "(string \<rightharpoonup> string) \<Rightarrow> string \<Rightarrow> string" where
  "tagValue parsed tag = (case parsed tag of None \<Rightarrow> [] | Some v \<Rightarrow> v)"

text \<open>
  Lines 264 to 285: the key is loaded and its type and length are checked.
  \<^verbatim>\<open>
  publicKeyPem = Buffer.from(`-----BEGIN PUBLIC KEY-----\n${publicKey}\n-----END PUBLIC KEY-----`);
  publicKey = crypto.createPublicKey({ key: publicKeyPem, format: 'pem' });
  let keyType = publicKey.asymmetricKeyType;
  if (!['rsa', 'ed25519'].includes(keyType) ||
      (entry?.parsed?.k && entry?.parsed?.k?.value?.toLowerCase() !== keyType)) {
      ... throw 'Unknown key type', EINVALIDTYPE
  }
  if (keyType === 'rsa') {
      if (publicKey.modulusLength < 1024) { ... throw 'Key too short', ESHORTKEY }
  }
  return { publicKey: publicKeyPem, rr };
  \<close>
  The bound 1024 is written into the comparison; \<^verbatim>\<open>minBitLength\<close> is not read.
\<close>

definition loadKey :: "key_env \<Rightarrow> (string \<rightharpoonup> string) \<Rightarrow> string \<Rightarrow> string \<Rightarrow> js_error + key_result" where
  "loadKey env parsed key r =
     (if \<not> globalPublicKeyPem env then Inl (ReferenceError ''publicKeyPem is not defined'')
      else
        (case createPublicKey env (publicKeyPem key) of
           Inl e \<Rightarrow> Inl e
         | Inr k \<Rightarrow>
             (let keyType = asymmetricKeyType k in
              if keyType \<notin> set [''rsa'', ''ed25519'']
                 \<or> (parsed ''k'' \<noteq> None \<and> toLowerCase (tagValue parsed ''k'') \<noteq> keyType)
              then Inl (Error ''Unknown key type'' (Some ''EINVALIDTYPE'') (Some r))
              else if keyType = ''rsa''
                      \<and> (case modulusLength k of None \<Rightarrow> False | Some bits \<Rightarrow> bits < 1024)
              then Inl (Error ''Key too short'' (Some ''ESHORTKEY'') (Some r))
              else Inr \<lparr>publicKey = publicKeyPem key, rr = r\<rparr>)))"

text \<open>
  \<^verbatim>\<open>
  const getPublicKey = async (type, name, minBitLength, resolver) => {
      minBitLength = minBitLength || 1024;
      resolver = resolver || dns.resolve;
      let list = await resolver(name, 'TXT');
      let rr = ...
      if (rr) {
          let entry = parseDkimHeaders(`DNS: TXT;${rr}`);
          let publicKey = entry?.parsed?.p?.value;
          if (!publicKey) { ... throw 'Missing key value', EINVALIDVAL, rr }
          if (type === 'DKIM' && entry?.parsed?.v &&
              (entry?.parsed?.v?.value || '').toString().toLowerCase().trim() !== 'dkim1') {
              ... throw 'Unknown key version', EINVALIDVER, rr
          }
          ...
      }
      let err = new Error('Missing key value');
      err.code = 'EINVALIDVAL';
      throw err;
  };
  \<close>
\<close>

definition getPublicKey :: "key_env \<Rightarrow> string \<Rightarrow> string \<Rightarrow> nat option \<Rightarrow> js_error + key_result" where
  "getPublicKey env type name minBitLength =
     (case resolver env name ''TXT'' of
        Inl e \<Rightarrow> Inl e
      | Inr list \<Rightarrow>
          (case keyRecord list of
             None \<Rightarrow> Inl (Error ''Missing key value'' (Some ''EINVALIDVAL'') None)
           | Some r \<Rightarrow>
               if r = [] then Inl (Error ''Missing key value'' (Some ''EINVALIDVAL'') None)
               else
                 (let parsed = parseDkimHeaders env (parserInput r);
                      key = tagValue parsed ''p''
                  in if key = [] then Inl (Error ''Missing key value'' (Some ''EINVALIDVAL'') (Some r))
                     else if type = ''DKIM'' \<and> parsed ''v'' \<noteq> None
                             \<and> trim (toLowerCase (tagValue parsed ''v'')) \<noteq> ''dkim1''
                     then Inl (Error ''Unknown key version'' (Some ''EINVALIDVER'') (Some r))
                     else loadKey env parsed key r)))"

text \<open>
  Sample data. A plain Node.js process (\<^verbatim>\<open>publicKeyPem\<close> unbound) whose resolver knows
  four key records: a revoked key (empty \<^verbatim>\<open>p\<close>), a record with no \<^verbatim>\<open>p\<close> tag, a 512-bit
  RSA key and an Ed25519 key. The two keys are real public keys. \<^verbatim>\<open>sampleCreatePublicKey\<close>
  stands for a crypto library whose key objects report their type and, in the property
  \<^verbatim>\<open>modulusLength\<close> that the code reads, the length of an RSA modulus; it is reached only
  where \<^verbatim>\<open>publicKeyPem\<close> is bound.
\<close>

definition rsa512 :: string where
  "rsa512 = ''MFwwDQYJKoZIhvcNAQEBBQADSwAwSAJBAO81mmHSQ1i5omo7y47HIFO2OibdtOqQ''
          @ ''ameh9LoRFEPUfsLSkMD9tqJS/BTk3abzz5VDfqoACDO8DXj+ksXP9rcCAwEAAQ==''"

definition ed25519 :: string where
  "ed25519 = ''MCowBQYDK2VwAyEAqANP9ZjOM6s/vC7qNG2E/l9R8gIRXZ4zi2Na3EQJ7YY=''"

definition sampleResolver :: "string \<Rightarrow> string \<Rightarrow> js_error + string list list option" where
  "sampleResolver name t =
     (if t \<noteq> ''TXT'' then Inl (Error ''queryTxt ENODATA'' (Some ''ENODATA'') None)
      else if name = ''revoked._domainkey.example.com'' then Inr (Some [[''v=DKIM1; p='']])
      else if name = ''nokey._domainkey.example.com'' then Inr (Some [[''v=DKIM1; k=rsa'']])
      else if name = ''small._domainkey.example.com''
        then Inr (Some [[''v=DKIM1; k=rsa; '', ''p='' @ rsa512]])
      else if name = ''ed._domainkey.example.com''
        then Inr (Some [[''v=DKIM1; k=ed25519; p='' @ ed25519]])
      else Inl (Error ''queryTxt ENOTFOUND'' (Some ''ENOTFOUND'') None))"

text \<open>
  Modelled from the spec: \<^verbatim>\<open>parseDkimHeaders\<close> (\<^verbatim>\<open>lib/parse-dkim-headers.js\<close>) is not
  among the sources. These are the tag lists that the tag-list parser of section 4.2
  (keys before \<^verbatim>\<open>=\<close>, values up to the next \<^verbatim>\<open>;\<close>, empty values kept) finds in the four
  sample records.
\<close>

definition sampleParse :: "string \<Rightarrow> (string \<rightharpoonup> string)" where
  "sampleParse s =
     (if s = ''DNS: TXT;v=DKIM1;p='' then [''v'' \<mapsto> ''DKIM1'', ''p'' \<mapsto> '''']
      else if s = ''DNS: TXT;v=DKIM1;k=rsa'' then [''v'' \<mapsto> ''DKIM1'', ''k'' \<mapsto> ''rsa'']
      else if s = ''DNS: TXT;v=DKIM1;k=rsa;p='' @ rsa512
        then [''v'' \<mapsto> ''DKIM1'', ''k'' \<mapsto> ''rsa'', ''p'' \<mapsto> rsa512]
      else if s = ''DNS: TXT;v=DKIM1;k=ed25519;p='' @ ed25519
        then [''v'' \<mapsto> ''DKIM1'', ''k'' \<mapsto> ''ed25519'', ''p'' \<mapsto> ed25519]
      else Map.empty)"

definition sampleCreatePublicKey :: "string \<Rightarrow> js_error + public_key" where
  "sampleCreatePublicKey pem =
     (if pem = publicKeyPem rsa512
        then Inr \<lparr>asymmetricKeyType = ''rsa'', modulusLength = Some 512\<rparr>
      else if pem = publicKeyPem ed25519
        then Inr \<lparr>asymmetricKeyType = ''ed25519'', modulusLength = None\<rparr>
      else Inl (Error ''error:1E08010C:DECODER routines::unsupported''
                  (Some ''ERR_OSSL_UNSUPPORTED'') None))"

definition nodeEnv :: key_env where
  "nodeEnv = \<lparr>resolver = sampleResolver, parseDkimHeaders = sampleParse,
              createPublicKey = sampleCreatePublicKey, globalPublicKeyPem = False\<rparr>"


section \<open>DMARC alignment: \<^verbatim>\<open>getAligment\<close>\<close>

text \<open>
  Two third-party packages are parameters of the model: \<^verbatim>\<open>psl.get\<close>, which answers with
  the organizational domain of a name or with \<^verbatim>\<open>null\<close> (\<^const>\<open>None\<close>), and
  \<^verbatim>\<open>punycode.toASCII\<close>, which answers with the A-label form or throws (\<^const>\<open>None\<close>).
\<close>

record domain_env =
  pslGet :: "string \<Rightarrow> string option"
  toASCII :: "string \<Rightarrow> string option"

text \<open>
  \<^verbatim>\<open>
  const formatDomain = domain => {
      domain = domain.toLowerCase().trim();
      try {
          domain = punycode.toASCII(domain).toLowerCase().trim();
      } catch (err) {
          // ignore punycode errors
      }
      return domain;
  };
  \<close>
\<close>

definition formatDomain :: "domain_env \<Rightarrow> string \<Rightarrow> string" where
  "formatDomain env domain =
     (let d = trim (toLowerCase domain)
      in case toASCII env d of None \<Rightarrow> d | Some a \<Rightarrow> trim (toLowerCase a))"

text \<open>\<^verbatim>\<open>psl.get(domain) || domain\<close>: the name itself where the answer is \<^verbatim>\<open>null\<close> or empty.\<close>

definition orgDomain :: "domain_env \<Rightarrow> string \<Rightarrow> string" where
  "orgDomain env domain =
     (case pslGet env domain of None \<Rightarrow> domain | Some org \<Rightarrow> if org = [] then domain else org)"

text \<open>
  \<^verbatim>\<open>
  const getAligment = (fromDomain, domainList, strict) => {
      domainList = [].concat(domainList || []);
      if (strict) {
          fromDomain = formatDomain(fromDomain);
          for (let domain of domainList) {
              domain = formatDomain(psl.get(domain) || domain);
              if (formatDomain(domain) === fromDomain) {
                  return domain;
              }
          }
      }

      // match org domains
      fromDomain = formatDomain(psl.get(fromDomain) || fromDomain);
      for (let domain of domainList) {
          domain = formatDomain(psl.get(domain) || domain);
          if (domain === fromDomain) {
              return domain;
          }
      }

      return false;
  };
  \<close>
  The result \<^verbatim>\<open>false\<close> is \<^const>\<open>None\<close>. The first loop, with the From domain already
  formatted:
\<close>

fun strictLoop :: "domain_env \<Rightarrow> string \<Rightarrow> string list \<Rightarrow> string option" where
  "strictLoop env fromDomain [] = None"
| "strictLoop env fromDomain (d # ds) =
     (let domain = formatDomain env (orgDomain env d)
      in if formatDomain env domain = fromDomain then Some domain
         else strictLoop env fromDomain ds)"

text \<open>The second loop, with the organizational domain of the From domain:\<close>

fun orgLoop :: "domain_env \<Rightarrow> string \<Rightarrow> string list \<Rightarrow> string option" where
  "orgLoop env fromDomain [] = None"
| "orgLoop env fromDomain (d # ds) =
     (let domain = formatDomain env (orgDomain env d)
      in if domain = fromDomain then Some domain else orgLoop env fromDomain ds)"

text \<open>
  When the first loop finds nothing, control goes on to the second loop, with the
  From domain that the strict branch has formatted.
\<close>

definition getAligment :: "domain_env \<Rightarrow> string \<Rightarrow> string list \<Rightarrow> bool \<Rightarrow> string option" where
  "getAligment env fromDomain domainList strict =
     (if strict then
        (case strictLoop env (formatDomain env fromDomain) domainList of
           Some domain \<Rightarrow> Some domain
         | None \<Rightarrow>
             orgLoop env (formatDomain env (orgDomain env (formatDomain env fromDomain))) domainList)
      else orgLoop env (formatDomain env (orgDomain env fromDomain)) domainList)"

text \<open>
  Sample data: the public suffix list on the names of \<^verbatim>\<open>example.com\<close>, and
  \<^verbatim>\<open>punycode.toASCII\<close> on ASCII names, which it leaves as they are.
\<close>

definition samplePsl :: "string \<Rightarrow> string option" where
  "samplePsl name =
     (if name \<in> set [''example.com'', ''a.example.com'', ''b.example.com'']
      then Some ''example.com'' else None)"

definition sampleDomains :: domain_env where
  "sampleDomains = \<lparr>pslGet = samplePsl, toASCII = Some\<rparr>"


section \<open>Verified Mark Certificates: \<^verbatim>\<open>parseLogoFromX509\<close>\<close>

text \<open>
  A certificate as \<^verbatim>\<open>Certificate.fromPEM\<close> (package \<^verbatim>\<open>@fidm/x509\<close>) presents it, as far
  as the code reads it: the list of extensions, each with its \<^verbatim>\<open>oid\<close>, its \<^verbatim>\<open>value\<close> and,
  for a subjectAltName extension, its \<^verbatim>\<open>altNames\<close>, whose entries may have a \<^verbatim>\<open>dnsName\<close>.
  A property that is missing is \<^const>\<open>None\<close>.
\<close>

record alt_name =
  dnsName :: "string option"

record extension =
  oid :: string
  ext_value :: "string option"
  ext_altNames :: "alt_name list option"

record certificate =
  extensions :: "extension list"

record logo =
  logo_pem :: string
  logo_altNames :: "string list"
  logo_svg :: string

text \<open>
  The calls into other packages: \<^verbatim>\<open>Certificate.fromPEM(pem)\<close>, which throws on a
  text it cannot read, and \<^verbatim>\<open>gunzip(Buffer.from(b64, 'base64'))\<close> followed by
  \<^verbatim>\<open>toString()\<close>, which rejects on data that is not a gzip stream.
\<close>

record x509_env =
  fromPEM :: "string \<Rightarrow> js_error + certificate"
  gunzipBase64 :: "string \<Rightarrow> js_error + string"

text \<open>
  \<^verbatim>\<open>
  const altNames = cert.extensions
      .filter(e => e.oid === '2.5.29.17')
      .flatMap(d => d?.altNames?.map(an => an?.dnsName?.trim()))
      .filter(an => an);
  \<close>
  An extension without \<^verbatim>\<open>altNames\<close> contributes \<^verbatim>\<open>undefined\<close>, an entry without
  \<^verbatim>\<open>dnsName\<close> as well; the last filter drops these and the empty names.
\<close>

definition trimmedNames :: "extension \<Rightarrow> string option list" where
  "trimmedNames d =
     (case ext_altNames d of
        None \<Rightarrow> [None]
      | Some ans \<Rightarrow> map (\<lambda>an. map_option trim (dnsName an)) ans)"

definition certAltNames :: "certificate \<Rightarrow> string list" where
  "certAltNames cert =
     filter (\<lambda>an. an \<noteq> [])
       (concat (map (\<lambda>an. case an of None \<Rightarrow> [] | Some n \<Rightarrow> [n])
         (concat (map trimmedNames (filter (\<lambda>e. oid e = ''2.5.29.17'') (extensions cert))))))"

text \<open>
  \<^verbatim>\<open>
  let logo = cert.extensions.find(e => e.oid === '1.3.6.1.5.5.7.1.12');
  if (!logo?.value?.length) {
      return false;
  }
  \<close>
  The value that passes this test, if there is one: that of the first logotype extension,
  when it is not empty.
\<close>

definition logotypeValue :: "certificate \<Rightarrow> string option" where
  "logotypeValue cert =
     (case find (\<lambda>e. oid e = ''1.3.6.1.5.5.7.1.12'') (extensions cert) of
        None \<Rightarrow> None
      | Some logo \<Rightarrow>
          (case ext_value logo of None \<Rightarrow> None | Some v \<Rightarrow> if v = [] then None else Some v))"

text \<open>
  The regular expressions \<^verbatim>\<open>/\bdata:/\<close> and \<^verbatim>\<open>/\bbase64,/\<close>. Both patterns begin with a
  word character, so \<^verbatim>\<open>\b\<close> holds at the start of the string and after a character that
  is not a word character. \<^verbatim>\<open>matchWord p False s\<close> is the text after the first match, the
  flag telling whether the character before is a word character.

  The value is a \<^verbatim>\<open>Buffer\<close>, read with \<^verbatim>\<open>toString()\<close>; the model keeps its bytes as
  characters, which leaves the ASCII text of the value and the places of the matches as
  they are.
\<close>

definition isWordChar :: "char \<Rightarrow> bool" where
  "isWordChar c =
     (let n = (of_char c :: nat)
      in (48 \<le> n \<and> n \<le> 57) \<or> (65 \<le> n \<and> n \<le> 90) \<or> n = 95 \<or> (97 \<le> n \<and> n \<le> 122))"

definition startsWith :: "string \<Rightarrow> string \<Rightarrow> bool" where
  "startsWith p s = (take (length p) s = p)"

fun matchWord :: "string \<Rightarrow> bool \<Rightarrow> string \<Rightarrow> string option" where
  "matchWord p afterWord [] = None"
| "matchWord p afterWord (c # cs) =
     (if \<not> afterWord \<and> startsWith p (c # cs) then Some (drop (length p) (c # cs))
      else matchWord p (isWordChar c) cs)"

text \<open>
  \<^verbatim>\<open>
  const parseLogoFromX509 = async pem => {
      const cert = Certificate.fromPEM(pem);
      const altNames = ...
      if (!altNames.length) {
          return false;
      }
      let logo = ...
      if (!logo?.value?.length) {
          return false;
      }
      let str = logo.value.toString();
      // No idea what is that binary stuff before the data uri block
      let dataMatch = /\bdata:/.test(str) && str.match(/\bbase64,/);
      if (dataMatch) {
          let b64 = str.substr(dataMatch.index + dataMatch[0].length);
          let svg = await gunzip(Buffer.from(b64, 'base64'));
          return { pem, altNames, svg: svg.toString() };
      }
      return false;
  };
  \<close>
  The result \<^verbatim>\<open>false\<close> is \<^const>\<open>None\<close>.
\<close>

definition parseLogoFromX509 :: "x509_env \<Rightarrow> string \<Rightarrow> js_error + logo option" where
  "parseLogoFromX509 env pem =
     (case fromPEM env pem of
        Inl e \<Rightarrow> Inl e
      | Inr cert \<Rightarrow>
          if certAltNames cert = [] then Inr None
          else
            (case logotypeValue cert of
               None \<Rightarrow> Inr None
             | Some str \<Rightarrow>
                 if matchWord ''data:'' False str = None then Inr None
                 else
                   (case matchWord ''base64,'' False str of
                      None \<Rightarrow> Inr None
                    | Some b64 \<Rightarrow>
                        (case gunzipBase64 env b64 of
                           Inl e \<Rightarrow> Inl e
                         | Inr svg \<Rightarrow>
                             Inr (Some \<lparr>logo_pem = pem, logo_altNames = certAltNames cert,
                                        logo_svg = svg\<rparr>)))))"

text \<open>
  The words of the specification, for comparison with the code: a value that contains a
  \<^verbatim>\<open>data:...;base64,\<close> URI, that is, \<^verbatim>\<open>data:\<close> with \<^verbatim>\<open>;base64,\<close> somewhere after it.
\<close>

fun textAfter :: "string \<Rightarrow> string \<Rightarrow> string option" where
  "textAfter p [] = (if p = [] then Some [] else None)"
| "textAfter p (c # cs) =
     (if startsWith p (c # cs) then Some (drop (length p) (c # cs)) else textAfter p cs)"

definition specDataUri :: "string \<Rightarrow> bool" where
  "specDataUri s =
     (case textAfter ''data:'' s of
        None \<Rightarrow> False
      | Some rest \<Rightarrow> textAfter '';base64,'' rest \<noteq> None)"

text \<open>
  Sample data. Five certificate files, named rather than written out, and what
  \<^verbatim>\<open>Certificate.fromPEM\<close> reads from them: one without DNS names, one without a logotype
  extension, one whose logotype has no base64 payload, one in which \<^verbatim>\<open>base64,\<close> comes
  before \<^verbatim>\<open>data:\<close>, and a complete one. The payload of the last is the gzip stream of
  \<^verbatim>\<open><svg/>\<close> in base64; \<^verbatim>\<open>sampleGunzip\<close> unpacks that stream and rejects everything else,
  as zlib does with data that has no gzip header.
\<close>

definition sanExtension :: extension where
  "sanExtension = \<lparr>oid = ''2.5.29.17'', ext_value = Some [CHR 0x30, CHR 0x0D],
       ext_altNames = Some [\<lparr>dnsName = Some '' example.com ''\<rparr>, \<lparr>dnsName = None\<rparr>]\<rparr>"

definition logotype :: "string \<Rightarrow> extension" where
  "logotype v = \<lparr>oid = ''1.3.6.1.5.5.7.1.12'', ext_value = Some v, ext_altNames = None\<rparr>"

definition svgPayload :: string where
  "svgPayload = ''H4sIAAAAAAACA7MpLkvXtwMASfu5rAYAAAA=''"

definition sampleFromPEM :: "string \<Rightarrow> js_error + certificate" where
  "sampleFromPEM pem =
     (if pem = ''no-names.pem''
        then Inr \<lparr>extensions = [logotype ([CHR 0x16] @ ''data:image/svg+xml;base64,'' @ svgPayload)]\<rparr>
      else if pem = ''no-logotype.pem'' then Inr \<lparr>extensions = [sanExtension]\<rparr>
      else if pem = ''no-payload.pem''
        then Inr \<lparr>extensions = [sanExtension, logotype ([CHR 0x16] @ ''data:image/svg+xml,<svg/>'')]\<rparr>
      else if pem = ''reversed.pem''
        then Inr \<lparr>extensions = [sanExtension, logotype ''base64,QUJD data:'']\<rparr>
      else if pem = ''vmc.pem''
        then Inr \<lparr>extensions =
               [sanExtension, logotype ([CHR 0x16] @ ''data:image/svg+xml;base64,'' @ svgPayload)]\<rparr>
      else Inl (Error ''Invalid PEM formatted message.'' None None))"

definition sampleGunzip :: "string \<Rightarrow> js_error + string" where
  "sampleGunzip b64 =
     (if b64 = svgPayload then Inr ''<svg/>''
      else Inl (Error ''incorrect header check'' (Some ''Z_DATA_ERROR'') None))"

definition sampleX509 :: x509_env where
  "sampleX509 = \<lparr>fromPEM = sampleFromPEM, gunzipBase64 = sampleGunzip\<rparr>"


section \<open>SPF: the counting resolver \<^verbatim>\<open>limitedResolver\<close>\<close>

text \<open>
  The outcome of an SPF evaluation, as \<^verbatim>\<open>spfVerify\<close> returns it or as an error carries it
  in \<^verbatim>\<open>spfResult\<close>: a \<^verbatim>\<open>qualifier\<close> or an \<^verbatim>\<open>error\<close>, a \<^verbatim>\<open>text\<close>, the matching record
  \<^verbatim>\<open>rr\<close>, and the \<^verbatim>\<open>lookups\<close> (limit and count) that \<^verbatim>\<open>verify\<close> adds.
\<close>

record spf_result =
  res_qualifier :: "string option"
  res_error :: "string option"
  res_text :: "string option"
  res_rr :: "string option"
  res_lookups :: "(nat \<times> nat) option"

text \<open>An error object on the SPF side: message, \<^verbatim>\<open>code\<close> and \<^verbatim>\<open>spfResult\<close>.\<close>

record dns_error =
  err_message :: string
  err_code :: "string option"
  err_spfResult :: "spf_result option"

definition spfError :: "string \<Rightarrow> string \<Rightarrow> spf_result" where
  "spfError e t = \<lparr>res_qualifier = None, res_error = Some e, res_text = Some t,
                   res_rr = None, res_lookups = None\<rparr>"

text \<open>
  The closure of \<^verbatim>\<open>limitedResolver\<close> holds the counter \<^verbatim>\<open>resolveCount\<close>. The model adds
  \<^verbatim>\<open>invocations\<close>, the calls that were handed on to the injected resolver, in order; the
  code has no such variable, it is there to state how often that resolver runs.
\<close>

record resolver_state =
  resolveCount :: nat
  invocations :: "(string \<times> string) list"



text \<open>
  The domain test \<^verbatim>\<open>/^([\x20-\x2D\x2f-\x7e]+\.)+[a-z]+[a-z\-0-9]*$/\<close>. The first class is
  the printable ASCII characters but the dot, so a name passes when it has at least two
  labels between dots, every label before the last is a non-empty run of such characters,
  and the last one starts with a letter \<^verbatim>\<open>a-z\<close> and goes on with \<^verbatim>\<open>a-z\<close>, digits and
  hyphens.
\<close>

fun splitOn :: "char \<Rightarrow> string \<Rightarrow> string list" where
  "splitOn sep [] = [[]]"
| "splitOn sep (c # cs) =
     (if c = sep then [] # splitOn sep cs
      else (case splitOn sep cs of [] \<Rightarrow> [[c]] | part # parts \<Rightarrow> (c # part) # parts))"

definition isLabelChar :: "char \<Rightarrow> bool" where
  "isLabelChar c = (let n = (of_char c :: nat) in 32 \<le> n \<and> n \<le> 126 \<and> n \<noteq> 46)"

definition isLowerAlpha :: "char \<Rightarrow> bool" where
  "isLowerAlpha c = (let n = (of_char c :: nat) in 97 \<le> n \<and> n \<le> 122)"

definition isDigit :: "char \<Rightarrow> bool" where
  "isDigit c = (let n = (of_char c :: nat) in 48 \<le> n \<and> n \<le> 57)"

definition isTld :: "string \<Rightarrow> bool" where
  "isTld l =
     (case l of
        [] \<Rightarrow> False
      | c # cs \<Rightarrow> isLowerAlpha c \<and> list_all (\<lambda>x. isLowerAlpha x \<or> x = CHR ''-'' \<or> isDigit x) cs)"

definition validDomain :: "string \<Rightarrow> bool" where
  "validDomain d =
     (let labels = splitOn (CHR ''.'') d
      in 2 \<le> length labels
         \<and> list_all (\<lambda>l. l \<noteq> [] \<and> list_all isLabelChar l) (butlast labels)
         \<and> isTld (last labels))"

text \<open>
  A call of the returned function answers with a number (the two special calls) or with
  the records of the DNS answer, whose shape the model leaves open.
\<close>

datatype 'a reply = Count nat | Answer "'a list"

text \<open>
  The first argument of a call: a name or \<^verbatim>\<open>false\<close> (\<^const>\<open>None\<close>), as \<^verbatim>\<open>verify\<close> passes
  it in the special calls. \<^verbatim>\<open>!domain\<close> holds for \<^verbatim>\<open>false\<close> and for the empty string; in a
  template and in the domain test \<^verbatim>\<open>false\<close> reads as the text \<^verbatim>\<open>false\<close>.
\<close>

definition falsyDomain :: "string option \<Rightarrow> bool" where
  "falsyDomain d = (case d of None \<Rightarrow> True | Some s \<Rightarrow> s = [])"

definition domainText :: "string option \<Rightarrow> string" where
  "domainText d = (case d of None \<Rightarrow> ''false'' | Some s \<Rightarrow> s)"

definition tooManyRequests :: dns_error where
  "tooManyRequests =
     \<lparr>err_message = ''Too many DNS requests'', err_code = None,
      err_spfResult = Some (spfError ''permerror'' ''Too many DNS requests'')\<rparr>"

text \<open>
  \<^verbatim>\<open>
  let limitedResolver = (resolver, maxResolveCount) => {
      let resolveCount = 0;
      maxResolveCount = maxResolveCount || MAX_RESOLVE_COUNT;
      return async (domain, type) => {
          if (!domain && type === 'resolveCount') { return resolveCount; }
          if (!domain && type === 'resolveLimit') { return maxResolveCount; }
          resolveCount++;
          if (resolveCount > maxResolveCount) {
              ... throw 'Too many DNS requests', spfResult permerror
          }
          try {
              if (!/^([\x20-\x2D\x2f-\x7e]+\.)+[a-z]+[a-z\-0-9]*$/.test(domain)) {
                  throw new Error('Failed to validate domain');
              }
          } catch (err) {
              err.spfResult = { error: 'permerror', text: `Invalid domain ${domain}` };
              throw err;
          }
          try {
              let result = await resolver(domain, type);
              return result;
          } catch (err) {
              switch (err.code) {
                  case 'ENOTFOUND':
                  case 'ENODATA':
                      return [];
                  case 'ETIMEOUT':
                      err.spfResult = { error: 'temperror', text: 'DNS timeout' };
                      throw err;
                  default:
                      throw err;
              }
          }
      };
  };
  \<close>
  The injected resolver is the parameter \<^verbatim>\<open>underlying\<close>; it is told how many calls
  it has answered before, so that its answers may change from call to call. \<^verbatim>\<open>limit\<close> is the value of
  \<^verbatim>\<open>maxResolveCount\<close> after the default. One call of the returned function:
\<close>

type_synonym 'a dns_resolver = "nat \<Rightarrow> string \<Rightarrow> string \<Rightarrow> dns_error + 'a list"

definition limitedResolver ::
  "'a dns_resolver \<Rightarrow> nat \<Rightarrow> resolver_state \<Rightarrow> string option \<Rightarrow> string
     \<Rightarrow> (dns_error + 'a reply) \<times> resolver_state" where
  "limitedResolver underlying limit s domain type =
     (if falsyDomain domain \<and> type = ''resolveCount'' then (Inr (Count (resolveCount s)), s)
      else if falsyDomain domain \<and> type = ''resolveLimit'' then (Inr (Count limit), s)
      else
        (let s1 = s\<lparr>resolveCount := resolveCount s + 1\<rparr>
         in if resolveCount s1 > limit then (Inl tooManyRequests, s1)
            else if \<not> validDomain (domainText domain)
            then (Inl \<lparr>err_message = ''Failed to validate domain'', err_code = None,
                       err_spfResult =
                         Some (spfError ''permerror'' (''Invalid domain '' @ domainText domain))\<rparr>,
                  s1)
            else
              (let s2 = s1\<lparr>invocations := invocations s1 @ [(domainText domain, type)]\<rparr>
               in case underlying (length (invocations s1)) (domainText domain) type of
                    Inr result \<Rightarrow> (Inr (Answer result), s2)
                  | Inl err \<Rightarrow>
                      if err_code err = Some ''ENOTFOUND'' \<or> err_code err = Some ''ENODATA''
                      then (Inr (Answer []), s2)
                      else if err_code err = Some ''ETIMEOUT''
                      then (Inl (err\<lparr>err_spfResult := Some (spfError ''temperror'' ''DNS timeout'')\<rparr>),
                            s2)
                      else (Inl err, s2))))"




section \<open>SPF: \<^verbatim>\<open>verify\<close> and the \<^verbatim>\<open>Received-SPF\<close> header\<close>

text \<open>
  Values that may be \<^verbatim>\<open>undefined\<close> are options. \<^verbatim>\<open>truthy\<close> is the test of \<^verbatim>\<open>||\<close> and
  \<^verbatim>\<open>?:\<close> on such a value, and \<^verbatim>\<open>template\<close> is what a template literal prints for it.
\<close>

definition truthy :: "string option \<Rightarrow> bool" where
  "truthy v = (case v of None \<Rightarrow> False | Some s \<Rightarrow> s \<noteq> [])"

definition template :: "string option \<Rightarrow> string" where
  "template v = (case v of None \<Rightarrow> ''undefined'' | Some s \<Rightarrow> s)"

text \<open>
  \<^verbatim>\<open>
  const escapeCommentValue = value => {
      value = (value || '')
          .toString()
          .replace(/[\x00-\x1F]+/g, ' ')
          .replace(/\s+/g, ' ')
          .trim();
      return `${value.replace(/[\\)]/g, c => `\\${c}`)}`;
  };
  \<close>
\<close>

definition isControl :: "char \<Rightarrow> bool" where
  "isControl c = ((of_char c :: nat) \<le> 31)"

function collapseControl :: "string \<Rightarrow> string" where
  "collapseControl [] = []"
| "collapseControl (c # cs) =
     (if isControl c then CHR 0x20 # collapseControl (dropWhile isControl cs)
      else c # collapseControl cs)"
  by pat_completeness auto
termination
  by (relation "measure length") (auto simp: length_dropWhile_le less_Suc_eq_le)

definition cleanValue :: "string \<Rightarrow> string" where
  "cleanValue v = trim (collapseWhiteSpace (collapseControl v))"

definition escapeChars :: "char list \<Rightarrow> string \<Rightarrow> string" where
  "escapeChars special v = concat (map (\<lambda>c. if c \<in> set special then [CHR 0x5C, c] else [c]) v)"

definition escapeCommentValue :: "string \<Rightarrow> string" where
  "escapeCommentValue v = escapeChars [CHR 0x5C, CHR '')''] (cleanValue v)"



text \<open>
  A status: the \<^verbatim>\<open>result\<close>, the \<^verbatim>\<open>comment\<close> (\<^const>\<open>None\<close> for \<^verbatim>\<open>false\<close>) and the four
  property groups, each the list of its properties in the order of \<^verbatim>\<open>Object.keys\<close>; a
  group that is missing is the empty list.
  \<^verbatim>\<open>
  const formatAuthHeaderRow = (method, status) => {
      status = status || {};
      let parts = [];
      parts.push(`${method}=${status.result || 'none'}`);
      if (status.comment) {
          parts.push(`(${escapeCommentValue(status.comment)})`);
      }
      for (let ptype of ['policy', 'smtp', 'body', 'header']) {
          if (!status[ptype] || typeof status[ptype] !== 'object') { continue; }
          for (let prop of Object.keys(status[ptype])) {
              if (status[ptype][prop]) {
                  parts.push(`${ptype}.${prop}=${escapePropValue(status[ptype][prop])}`);
              }
          }
      }
      return parts.join(' ');
  };
  \<close>
\<close>

record status =
  st_result :: string
  st_comment :: "string option"
  st_policy :: "(string \<times> string option) list"
  st_smtp :: "(string \<times> string option) list"
  st_body :: "(string \<times> string option) list"
  st_header :: "(string \<times> string option) list"




text \<open>
  \<^verbatim>\<open>libmime.foldLines\<close> belongs to a third-party package. The model does not fold: a
  folded header is the call with its arguments, the line and the width.
\<close>

datatype folded = FoldLines string "nat option"

text \<open>
  The response of \<^verbatim>\<open>verify\<close>. \<^verbatim>\<open>header\<close> and \<^verbatim>\<open>info\<close> are set last; while
  \<^verbatim>\<open>formatHeaders\<close> runs they are not there yet.
\<close>

record response =
  resp_domain :: string
  resp_client_ip :: "string option"
  resp_helo :: "string option"
  resp_envelope_from :: "string option"
  resp_rr :: "string option"
  resp_status :: status
  resp_header :: "folded option"
  resp_info :: "string option"
  resp_lookups :: "(nat \<times> nat) option"

text \<open>
  \<^verbatim>\<open>
  const formatHeaders = result => {
      let header = `Received-SPF: ${result.status.result}${
          result.status.comment ? ` (${escapeCommentValue(result.status.comment)})` : ''
      } client-ip=${result['client-ip']};`;
      return libmime.foldLines(header, 160);
  };
  \<close>
\<close>

definition formatHeaders :: "response \<Rightarrow> folded" where
  "formatHeaders result =
     FoldLines
       (''Received-SPF: '' @ st_result (resp_status result)
        @ (if truthy (st_comment (resp_status result))
           then '' ('' @ escapeCommentValue (template (st_comment (resp_status result))) @ '')''
           else [])
        @ '' client-ip='' @ template (resp_client_ip result) @ '';'')
       (Some 160)"




















text \<open>
  The calls that count: all but the two special ones, which read the counter and the
  limit.
\<close>

definition specialQuery :: "string option \<Rightarrow> string \<Rightarrow> bool" where
  "specialQuery domain type =
     (falsyDomain domain \<and> (type = ''resolveCount'' \<or> type = ''resolveLimit''))"






section \<open>Signature headers: \<^verbatim>\<open>formatSignatureHeaderLine\<close>\<close>





































section \<open>Properties of the string operations\<close>

lemma of_char_toLowerChar:
  "(of_char (toLowerChar c) :: nat) =
     (let n = (of_char c :: nat)
      in if (65 \<le> n \<and> n \<le> 90) \<or> (192 \<le> n \<and> n \<le> 222 \<and> n \<noteq> 215)
         then n + 32 else n)"
  by (simp add: toLowerChar_def Let_def)

lemma toLowerChar_eq_iff:
  assumes "(of_char d :: nat) < 65 \<or> (90 < (of_char d :: nat) \<and> (of_char d :: nat) < 97)
           \<or> (122 < (of_char d :: nat) \<and> (of_char d :: nat) < 192)"
  shows "toLowerChar c = d \<longleftrightarrow> c = d"
proof -
  have "toLowerChar c = d \<longleftrightarrow> (of_char (toLowerChar c) :: nat) = of_char d"
    by (simp only: of_char_eq_iff)
  also have "\<dots> \<longleftrightarrow> (of_char c :: nat) = of_char d"
    using assms by (auto simp add: of_char_toLowerChar Let_def)
  also have "\<dots> \<longleftrightarrow> c = d"
    by (simp only: of_char_eq_iff)
  finally show ?thesis .
qed

lemma toLowerChar_colon [simp]: "toLowerChar c = CHR '':'' \<longleftrightarrow> c = CHR '':''"
  by (rule toLowerChar_eq_iff) simp

lemma isWhiteSpace_toLowerChar [simp]: "isWhiteSpace (toLowerChar c) \<longleftrightarrow> isWhiteSpace c"
proof -
  have "toLowerChar c = d \<longleftrightarrow> c = d"
    if "d \<in> set [CHR 0x09, CHR 0x0A, CHR 0x0B, CHR 0x0C, CHR 0x0D, CHR 0x20, CHR 0xA0]" for d
    using that by (intro toLowerChar_eq_iff) auto
  then show ?thesis
    unfolding isWhiteSpace_def by (metis (no_types, lifting))
qed

lemma toLowerChar_idem [simp]: "toLowerChar (toLowerChar c) = toLowerChar c"
proof -
  have "(of_char (toLowerChar (toLowerChar c)) :: nat) = of_char (toLowerChar c)"
    by (auto simp add: of_char_toLowerChar Let_def)
  then show ?thesis by (simp only: of_char_eq_iff)
qed

lemma unfoldLine_no_LF: "CHR 0x0A \<notin> set (unfoldLine s)"
  by (induction s rule: unfoldLine.induct) auto

lemma unfoldLine_keeps:
  "c \<noteq> CHR 0x0A \<Longrightarrow> c \<noteq> CHR 0x0D \<Longrightarrow> c \<in> set (unfoldLine s) \<longleftrightarrow> c \<in> set s"
  by (induction s rule: unfoldLine.induct) auto

lemma collapseWhiteSpace_append:
  "\<not> isWhiteSpace c \<Longrightarrow>
   collapseWhiteSpace (xs @ c # ys) = collapseWhiteSpace xs @ c # collapseWhiteSpace ys"
  by (induction xs rule: collapseWhiteSpace.induct) (simp_all add: dropWhile_append3)

lemma collapseWhiteSpace_set:
  "d \<in> set (collapseWhiteSpace s) \<Longrightarrow> d = CHR 0x20 \<or> (d \<in> set s \<and> \<not> isWhiteSpace d)"
proof (induction s rule: collapseWhiteSpace.induct)
  case 1
  then show ?case by simp
next
  case (2 c cs)
  then show ?case
    by (auto split: if_splits dest: set_dropWhileD)
qed

lemma collapseWhiteSpace_Nil [simp]: "collapseWhiteSpace s = [] \<longleftrightarrow> s = []"
  by (cases s) simp_all

lemma collapseWhiteSpace_hd:
  "s \<noteq> [] \<Longrightarrow> isWhiteSpace (hd (collapseWhiteSpace s)) \<longleftrightarrow> isWhiteSpace (hd s)"
  by (cases s) (simp_all add: isWhiteSpace_def)

lemma collapseWhiteSpace_last:
  "s \<noteq> [] \<Longrightarrow> \<not> isWhiteSpace (last s) \<Longrightarrow> \<not> isWhiteSpace (last (collapseWhiteSpace s))"
proof (induction s rule: collapseWhiteSpace.induct)
  case 1
  then show ?case by simp
next
  case (2 c cs)
  let ?r = "dropWhile isWhiteSpace cs"
  show ?case
  proof (cases "isWhiteSpace c")
    case True
    have e: "collapseWhiteSpace (c # cs) = CHR 0x20 # collapseWhiteSpace ?r"
      using True by simp
    have cs: "cs \<noteq> []" using True "2.prems" by auto
    then have l: "last cs = last (c # cs)" by simp
    have "\<not> isWhiteSpace (last cs)" using "2.prems"(2) l by simp
    then have "\<exists>x\<in>set cs. \<not> isWhiteSpace x" using cs last_in_set by blast
    then have r: "?r \<noteq> []" by (simp add: dropWhile_eq_Nil_conv)
    then have "last ?r = last cs"
      by (metis last_appendR takeWhile_dropWhile_id)
    then have "\<not> isWhiteSpace (last ?r)" using \<open>\<not> isWhiteSpace (last cs)\<close> by simp
    then have n: "\<not> isWhiteSpace (last (collapseWhiteSpace ?r))"
      using "2.IH"(1) True r by blast
    have "collapseWhiteSpace ?r \<noteq> []" using r by simp
    then have eq: "last (CHR 0x20 # collapseWhiteSpace ?r) = last (collapseWhiteSpace ?r)"
      by (rule last_ConsR)
    show ?thesis unfolding e eq by (rule n)
  next
    case False
    then show ?thesis
      using "2.IH"(2) "2.prems" by (cases cs) simp_all
  qed
qed

lemma singleSpaced_collapseWhiteSpace: "singleSpaced (collapseWhiteSpace s)"
proof (induction s rule: collapseWhiteSpace.induct)
  case 1
  then show ?case by simp
next
  case (2 c cs)
  let ?r = "dropWhile isWhiteSpace cs"
  show ?case
  proof (cases "isWhiteSpace c")
    case True
    have e: "collapseWhiteSpace (c # cs) = CHR 0x20 # collapseWhiteSpace ?r"
      using True by simp
    have ih: "singleSpaced (collapseWhiteSpace ?r)" using True "2.IH"(1) by blast
    show ?thesis
    proof (cases ?r)
      case Nil
      show ?thesis unfolding e Nil by simp
    next
      case (Cons d ds)
      then have "\<not> isWhiteSpace d" by (metis hd_dropWhile list.distinct(1) list.sel(1))
      then show ?thesis using ih unfolding e Cons by simp
    qed
  next
    case False
    then show ?thesis
      using "2.IH"(2) by (cases "collapseWhiteSpace cs") simp_all
  qed
qed

lemma singleSpaced_appendD: "singleSpaced (xs @ ys) \<Longrightarrow> singleSpaced xs \<and> singleSpaced ys"
proof (induction xs rule: singleSpaced.induct)
  case 1
  then show ?case by simp
next
  case (2 c)
  then show ?case by (cases ys) simp_all
next
  case (3 c d cs)
  then show ?case by simp
qed

lemma trimStart_id: "s = [] \<or> \<not> isWhiteSpace (hd s) \<Longrightarrow> trimStart s = s"
  by (cases s) (simp_all add: trimStart_def)

lemma trimEnd_append: "\<not> isWhiteSpace c \<Longrightarrow> trimEnd (xs @ c # ys) = xs @ c # trimEnd ys"
  by (simp add: trimEnd_def dropWhile_append3)

lemma trimEnd_last: "trimEnd s \<noteq> [] \<Longrightarrow> \<not> isWhiteSpace (last (trimEnd s))"
  unfolding trimEnd_def by (metis hd_dropWhile last_rev rev_is_Nil_conv)

lemma trimEnd_prefix: "\<exists>t. s = trimEnd s @ t"
  unfolding trimEnd_def
  by (metis rev_append rev_rev_ident takeWhile_dropWhile_id)

lemma trimStart_hd: "trimStart s \<noteq> [] \<Longrightarrow> \<not> isWhiteSpace (hd (trimStart s))"
  unfolding trimStart_def by (metis hd_dropWhile)

lemma trimStart_suffix: "\<exists>t. s = t @ trimStart s"
  unfolding trimStart_def by (metis takeWhile_dropWhile_id)

lemma trim_hd: "trim s \<noteq> [] \<Longrightarrow> \<not> isWhiteSpace (hd (trim s))"
proof -
  assume a: "trim s \<noteq> []"
  obtain t where t: "trimStart s = trim s @ t"
    unfolding trim_def using trimEnd_prefix by blast
  with a have "trimStart s \<noteq> []" by auto
  moreover have "hd (trimStart s) = hd (trim s)" using t a by simp
  ultimately show ?thesis using trimStart_hd by metis
qed

lemma trim_last: "trim s \<noteq> [] \<Longrightarrow> \<not> isWhiteSpace (last (trim s))"
  unfolding trim_def by (rule trimEnd_last)


lemma not_ws_colon [simp]: "\<not> isWhiteSpace (CHR '':'')"
  by (simp add: isWhiteSpace_def)

lemma set_trimEnd: "set (trimEnd s) \<subseteq> set s"
  using trimEnd_prefix [of s] by (metis Un_upper1 set_append)

lemma set_trimStart: "set (trimStart s) \<subseteq> set s"
  unfolding trimStart_def by (auto dest: set_dropWhileD)

lemma set_trim: "set (trim s) \<subseteq> set s"
  unfolding trim_def using set_trimEnd set_trimStart by blast

lemma lowerKey_colon:
  assumes "CHR '':'' \<in> set s"
  shows "trim (collapseWhiteSpace (lowerKey s)) =
         collapseWhiteSpace (trim (toLowerCase (takeWhile (\<lambda>c. c \<noteq> CHR '':'') s))) @
         CHR '':'' # trimEnd (collapseWhiteSpace (trimStart (tl (dropWhile (\<lambda>c. c \<noteq> CHR '':'') s))))"
proof -
  define K where "K = trim (toLowerCase (takeWhile (\<lambda>c. c \<noteq> CHR '':'') s))"
  define R where "R = trimStart (tl (dropWhile (\<lambda>c. c \<noteq> CHR '':'') s))"
  have lk: "lowerKey s = K @ CHR '':'' # R"
    using assms by (simp add: lowerKey_def K_def R_def trimStart_def)
  have col: "collapseWhiteSpace (K @ CHR '':'' # R) =
             collapseWhiteSpace K @ CHR '':'' # collapseWhiteSpace R"
    by (rule collapseWhiteSpace_append) simp
  have hdK: "K \<noteq> [] \<Longrightarrow> \<not> isWhiteSpace (hd K)"
    unfolding K_def by (rule trim_hd)
  have "collapseWhiteSpace K @ CHR '':'' # collapseWhiteSpace R = [] \<or>
        \<not> isWhiteSpace (hd (collapseWhiteSpace K @ CHR '':'' # collapseWhiteSpace R))"
  proof (cases "K = []")
    case True
    then show ?thesis by simp
  next
    case False
    then have "\<not> isWhiteSpace (hd (collapseWhiteSpace K))"
      using hdK collapseWhiteSpace_hd by blast
    moreover have "collapseWhiteSpace K \<noteq> []" using False by simp
    ultimately show ?thesis by simp
  qed
  then have ts: "trimStart (collapseWhiteSpace K @ CHR '':'' # collapseWhiteSpace R) =
                 collapseWhiteSpace K @ CHR '':'' # collapseWhiteSpace R"
    by (rule trimStart_id)
  have te: "trimEnd (collapseWhiteSpace K @ CHR '':'' # collapseWhiteSpace R) =
            collapseWhiteSpace K @ CHR '':'' # trimEnd (collapseWhiteSpace R)"
    by (rule trimEnd_append) simp
  show ?thesis
    unfolding lk col trim_def [of "collapseWhiteSpace K @ CHR '':'' # collapseWhiteSpace R"] ts te
    unfolding K_def R_def ..
qed

lemma formatRelaxedLine_split:
  assumes "CHR '':'' \<in> set line"
  shows "formatRelaxedLine line (Some sfx) = relaxedKey line @ '':'' @ relaxedValue line @ sfx"
proof -
  have "CHR '':'' \<in> set (unfoldLine line)"
    using assms by (simp add: unfoldLine_keeps)
  then show ?thesis
    by (simp add: formatRelaxedLine_def relaxedKey_def relaxedValue_def lowerKey_colon)
qed

lemma relaxedKey_no_colon: "CHR '':'' \<notin> set (relaxedKey line)"
proof
  assume "CHR '':'' \<in> set (relaxedKey line)"
  then have "CHR '':'' \<in> set (trim (toLowerCase (takeWhile (\<lambda>c. c \<noteq> CHR '':'') (unfoldLine line))))"
    unfolding relaxedKey_def by (auto dest: collapseWhiteSpace_set)
  then have "CHR '':'' \<in> set (toLowerCase (takeWhile (\<lambda>c. c \<noteq> CHR '':'') (unfoldLine line)))"
    using set_trim by blast
  then have "CHR '':'' \<in> toLowerChar ` set (takeWhile (\<lambda>c. c \<noteq> CHR '':'') (unfoldLine line))"
    unfolding toLowerCase_def set_map .
  then obtain x where e: "CHR '':'' = toLowerChar x"
    and x: "x \<in> set (takeWhile (\<lambda>c. c \<noteq> CHR '':'') (unfoldLine line))"
    by (rule imageE)
  from e have "toLowerChar x = CHR '':''" by (rule sym)
  then have "x = CHR '':''" by (simp only: toLowerChar_colon)
  with x show False
    using set_takeWhileD by fastforce
qed

lemma relaxedKey_lower: "c \<in> set (relaxedKey line) \<Longrightarrow> toLowerChar c = c"
proof -
  assume "c \<in> set (relaxedKey line)"
  then consider "c = CHR 0x20"
    | "c \<in> set (trim (toLowerCase (takeWhile (\<lambda>c. c \<noteq> CHR '':'') (unfoldLine line))))"
    unfolding relaxedKey_def by (auto dest: collapseWhiteSpace_set)
  then show ?thesis
  proof cases
    case 1
    then show ?thesis by (simp add: toLowerChar_def)
  next
    case 2
    then have "c \<in> set (toLowerCase (takeWhile (\<lambda>c. c \<noteq> CHR '':'') (unfoldLine line)))"
      using set_trim by blast
    then show ?thesis by (auto simp: toLowerCase_def)
  qed
qed

lemma relaxedKey_ends:
  assumes "relaxedKey line \<noteq> []"
  shows "\<not> isWhiteSpace (hd (relaxedKey line)) \<and> \<not> isWhiteSpace (last (relaxedKey line))"
proof -
  let ?K = "trim (toLowerCase (takeWhile (\<lambda>c. c \<noteq> CHR '':'') (unfoldLine line)))"
  have K: "?K \<noteq> []" using assms by (simp add: relaxedKey_def)
  then have "\<not> isWhiteSpace (hd ?K)" "\<not> isWhiteSpace (last ?K)"
    by (rule trim_hd, rule trim_last)
  then show ?thesis
    unfolding relaxedKey_def using K collapseWhiteSpace_hd collapseWhiteSpace_last by blast
qed

lemma relaxedValue_ends:
  assumes "relaxedValue line \<noteq> []"
  shows "\<not> isWhiteSpace (hd (relaxedValue line)) \<and> \<not> isWhiteSpace (last (relaxedValue line))"
proof -
  let ?R = "trimStart (tl (dropWhile (\<lambda>c. c \<noteq> CHR '':'') (unfoldLine line)))"
  have l: "\<not> isWhiteSpace (last (relaxedValue line))"
    using assms unfolding relaxedValue_def by (rule trimEnd_last)
  obtain t where t: "collapseWhiteSpace ?R = relaxedValue line @ t"
    unfolding relaxedValue_def using trimEnd_prefix by blast
  then have R: "?R \<noteq> []" using assms by auto
  then have "\<not> isWhiteSpace (hd ?R)" by (rule trimStart_hd)
  then have "\<not> isWhiteSpace (hd (collapseWhiteSpace ?R))"
    using R collapseWhiteSpace_hd by blast
  moreover have "hd (collapseWhiteSpace ?R) = hd (relaxedValue line)"
    using t assms by simp
  ultimately show ?thesis using l by simp
qed

lemma collapseWhiteSpace_no_CR_LF:
  "CHR 0x0D \<notin> set (collapseWhiteSpace s) \<and> CHR 0x0A \<notin> set (collapseWhiteSpace s)"
  by (auto dest!: collapseWhiteSpace_set simp: isWhiteSpace_def)

lemma relaxed_no_CR_LF:
  "CHR 0x0D \<notin> set (relaxedKey line @ '':'' @ relaxedValue line) \<and>
   CHR 0x0A \<notin> set (relaxedKey line @ '':'' @ relaxedValue line)"
proof -
  have "set (relaxedValue line) \<subseteq>
        set (collapseWhiteSpace (trimStart (tl (dropWhile (\<lambda>c. c \<noteq> CHR '':'') (unfoldLine line)))))"
    unfolding relaxedValue_def by (rule set_trimEnd)
  then show ?thesis
    using collapseWhiteSpace_no_CR_LF unfolding relaxedKey_def by auto
qed

lemma relaxed_singleSpaced:
  assumes "CHR '':'' \<in> set line"
  shows "singleSpaced (relaxedKey line @ '':'' @ relaxedValue line)"
proof -
  let ?X = "collapseWhiteSpace (lowerKey (unfoldLine line))"
  have "formatRelaxedLine line (Some []) = trim ?X"
    by (simp add: formatRelaxedLine_def)
  then have e: "relaxedKey line @ '':'' @ relaxedValue line = trim ?X"
    using formatRelaxedLine_split [OF assms, of "[]"] by simp
  obtain t where "?X = t @ trimStart ?X" using trimStart_suffix by blast
  then have "singleSpaced (trimStart ?X)"
    using singleSpaced_collapseWhiteSpace [of "lowerKey (unfoldLine line)"] singleSpaced_appendD
    by metis
  moreover obtain t' where "trimStart ?X = trim ?X @ t'"
    unfolding trim_def using trimEnd_prefix by blast
  ultimately have "singleSpaced (trim ?X)"
    using singleSpaced_appendD by metis
  then show ?thesis unfolding e .
qed

text \<open>
  Claim C8. For a raw header line (folded or not) that has a colon, relaxed header
  canonicalization, \<^verbatim>\<open>formatRelaxedLine(line, '\r\n')\<close>, yields key, colon, value and
  CRLF, where: the key is the lower-cased key of the unfolded line; there is no white
  space on either side of the colon; no CR or LF is left before the final CRLF; every run
  of white space has become one SP; and the value has no trailing white space.
\<close>

theorem formatRelaxedLine_relaxed:
  assumes "CHR '':'' \<in> set line"
  shows "formatRelaxedLine line (Some CRLF) = relaxedKey line @ '':'' @ relaxedValue line @ CRLF
       \<and> CHR '':'' \<notin> set (relaxedKey line)
       \<and> (\<forall>c \<in> set (relaxedKey line). toLowerChar c = c)
       \<and> (relaxedKey line \<noteq> [] \<longrightarrow> \<not> isWhiteSpace (last (relaxedKey line)))
       \<and> (relaxedValue line \<noteq> [] \<longrightarrow>
            \<not> isWhiteSpace (hd (relaxedValue line)) \<and> \<not> isWhiteSpace (last (relaxedValue line)))
       \<and> CHR 0x0D \<notin> set (relaxedKey line @ '':'' @ relaxedValue line)
       \<and> CHR 0x0A \<notin> set (relaxedKey line @ '':'' @ relaxedValue line)
       \<and> singleSpaced (relaxedKey line @ '':'' @ relaxedValue line)"
proof -
  have "formatRelaxedLine line (Some CRLF) = relaxedKey line @ '':'' @ relaxedValue line @ CRLF"
    using assms by (rule formatRelaxedLine_split)
  moreover have "\<forall>c \<in> set (relaxedKey line). toLowerChar c = c"
    using relaxedKey_lower by blast
  moreover have "relaxedKey line \<noteq> [] \<longrightarrow> \<not> isWhiteSpace (last (relaxedKey line))"
    using relaxedKey_ends by blast
  moreover have "relaxedValue line \<noteq> [] \<longrightarrow>
      \<not> isWhiteSpace (hd (relaxedValue line)) \<and> \<not> isWhiteSpace (last (relaxedValue line))"
    using relaxedValue_ends by blast
  moreover have "singleSpaced (relaxedKey line @ '':'' @ relaxedValue line)"
    using assms by (rule relaxed_singleSpaced)
  ultimately show ?thesis
    using relaxedKey_no_colon relaxed_no_CR_LF by blast
qed

theorem formatRelaxedLine_relaxed_witness:
  "CHR '':'' \<in> set (''SubJect : a  b '' @ CRLF @ '' c'' @ CRLF)
   \<and> formatRelaxedLine (''SubJect : a  b '' @ CRLF @ '' c'' @ CRLF) (Some CRLF)
       = ''subject:a b c'' @ CRLF"
proof -
  let ?l = "''SubJect : a  b '' @ CRLF @ '' c'' @ CRLF"
  have h: "CHR '':'' \<in> set ?l" by simp
  have k: "relaxedKey ?l = ''subject''" by code_simp
  have v: "relaxedValue ?l = ''a b c''" by code_simp
  have "formatRelaxedLine ?l (Some CRLF) = relaxedKey ?l @ '':'' @ relaxedValue ?l @ CRLF"
    using formatRelaxedLine_relaxed [OF h] by blast
  then have "formatRelaxedLine ?l (Some CRLF) = ''subject:a b c'' @ CRLF"
    unfolding k v by simp
  with h show ?thesis by blast
qed

section \<open>Properties of \<^verbatim>\<open>getPublicKey\<close>\<close>

lemma keyRecord_first:
  "keyRecord (Some (fragments # others)) = Some (removeWhiteSpace (concat fragments))"
  by (simp add: keyRecord_def)

lemma removeWhiteSpace_clean: "c \<in> set (removeWhiteSpace s) \<Longrightarrow> \<not> isWhiteSpace c"
  by (simp add: removeWhiteSpace_def)

text \<open>
  In a process where \<^verbatim>\<open>publicKeyPem\<close> is unbound, no call of \<^verbatim>\<open>getPublicKey\<close> returns
  a key.
\<close>

lemma getPublicKey_unbound:
  assumes "\<not> globalPublicKeyPem env"
  shows "isl (getPublicKey env type name minBitLength)"
  using assms
  by (simp add: getPublicKey_def loadKey_def Let_def split: sum.splits option.splits)

text \<open>
  Claim C3, as the code has it. The specification says that an empty \<^verbatim>\<open>p\<close> tag fails as
  revoked and a missing \<^verbatim>\<open>p\<close> tag with a different error. In the code both records
  fail alike: message \<^verbatim>\<open>Missing key value\<close>, code \<^verbatim>\<open>EINVALIDVAL\<close>, and the record itself
  attached as \<^verbatim>\<open>rr\<close> (nothing is attached when the record is empty).
\<close>

theorem getPublicKey_missing_key:
  assumes "resolver env name ''TXT'' = Inr list"
    and "keyRecord list = Some r"
    and "parseDkimHeaders env (parserInput r) ''p'' = None
         \<or> parseDkimHeaders env (parserInput r) ''p'' = Some []"
  shows "getPublicKey env type name minBitLength
         = Inl (Error ''Missing key value'' (Some ''EINVALIDVAL'') (if r = [] then None else Some r))"
proof -
  have "tagValue (parseDkimHeaders env (parserInput r)) ''p'' = []"
    using assms(3) by (auto simp: tagValue_def)
  then show ?thesis
    using assms(1,2) by (simp add: getPublicKey_def Let_def)
qed

theorem getPublicKey_missing_key_witness:
  "getPublicKey (nodeEnv\<lparr>globalPublicKeyPem := True\<rparr>) ''ARC'' ''revoked._domainkey.example.com'' None
     = Inl (Error ''Missing key value'' (Some ''EINVALIDVAL'') (Some ''v=DKIM1;p=''))
   \<and> getPublicKey (nodeEnv\<lparr>globalPublicKeyPem := True\<rparr>) ''ARC'' ''nokey._domainkey.example.com'' None
     = Inl (Error ''Missing key value'' (Some ''EINVALIDVAL'') (Some ''v=DKIM1;k=rsa''))"
proof -
  let ?env = "nodeEnv\<lparr>globalPublicKeyPem := True\<rparr>"
  have a: "resolver ?env ''revoked._domainkey.example.com'' ''TXT'' = Inr (Some [[''v=DKIM1; p='']])"
    by code_simp
  have b: "keyRecord (Some [[''v=DKIM1; p='']]) = Some ''v=DKIM1;p=''"
    by code_simp
  have c: "parseDkimHeaders ?env (parserInput ''v=DKIM1;p='') ''p'' = Some []"
    by code_simp
  have a': "resolver ?env ''nokey._domainkey.example.com'' ''TXT'' = Inr (Some [[''v=DKIM1; k=rsa'']])"
    by code_simp
  have b': "keyRecord (Some [[''v=DKIM1; k=rsa'']]) = Some ''v=DKIM1;k=rsa''"
    by code_simp
  have c': "parseDkimHeaders ?env (parserInput ''v=DKIM1;k=rsa'') ''p'' = None"
    by code_simp
  have "getPublicKey ?env ''ARC'' ''revoked._domainkey.example.com'' None
     = Inl (Error ''Missing key value'' (Some ''EINVALIDVAL'')
              (if ''v=DKIM1;p='' = [] then None else Some ''v=DKIM1;p=''))"
    using a b disjI2 [OF c] by (rule getPublicKey_missing_key)
  moreover have "getPublicKey ?env ''ARC'' ''nokey._domainkey.example.com'' None
     = Inl (Error ''Missing key value'' (Some ''EINVALIDVAL'')
              (if ''v=DKIM1;k=rsa'' = [] then None else Some ''v=DKIM1;k=rsa''))"
    using a' b' disjI1 [OF c'] by (rule getPublicKey_missing_key)
  ultimately show ?thesis by simp
qed

theorem getPublicKey_revoked_counterexample:
  "getPublicKey nodeEnv ''DKIM'' ''revoked._domainkey.example.com'' None
     = Inl (Error ''Missing key value'' (Some ''EINVALIDVAL'') (Some ''v=DKIM1;p=''))
   \<and> getPublicKey nodeEnv ''DKIM'' ''nokey._domainkey.example.com'' None
     = Inl (Error ''Missing key value'' (Some ''EINVALIDVAL'') (Some ''v=DKIM1;k=rsa''))"
  by code_simp

text \<open>
  Claim C5, as the code has it. The specification says that the fragments of the TXT
  answer reach the tag-list parser joined verbatim. The code joins the fragments of the
  first record, takes every white space character out of the result, inside fragments as
  well as between them, and hands the parser that string after the prefix
  \<^verbatim>\<open>DNS: TXT;\<close>: the outcome of \<^verbatim>\<open>getPublicKey\<close> depends on the parser only through
  what it answers on this one string.
\<close>

theorem getPublicKey_parser_input:
  assumes "resolver env name ''TXT'' = Inr (Some (fragments # others))"
    and "q (parserInput (removeWhiteSpace (concat fragments)))
         = parseDkimHeaders env (parserInput (removeWhiteSpace (concat fragments)))"
  shows "keyRecord (Some (fragments # others)) = Some (removeWhiteSpace (concat fragments))
       \<and> parserInput (removeWhiteSpace (concat fragments))
         = ''DNS: TXT;'' @ removeWhiteSpace (concat fragments)
       \<and> (\<forall>c \<in> set (removeWhiteSpace (concat fragments)). \<not> isWhiteSpace c)
       \<and> getPublicKey (env\<lparr>parseDkimHeaders := q\<rparr>) type name minBitLength
         = getPublicKey env type name minBitLength"
proof -
  have "loadKey (env\<lparr>parseDkimHeaders := q\<rparr>) p k r = loadKey env p k r" for p k r
    by (simp add: loadKey_def)
  then have "getPublicKey (env\<lparr>parseDkimHeaders := q\<rparr>) type name minBitLength
      = getPublicKey env type name minBitLength"
    using assms by (auto simp add: getPublicKey_def keyRecord_first Let_def)
  moreover have "parserInput (removeWhiteSpace (concat fragments))
         = ''DNS: TXT;'' @ removeWhiteSpace (concat fragments)"
    by (simp only: parserInput_def)
  ultimately show ?thesis
    using removeWhiteSpace_clean keyRecord_first by blast
qed

theorem getPublicKey_parser_input_witness:
  "resolver nodeEnv ''small._domainkey.example.com'' ''TXT''
     = Inr (Some ([''v=DKIM1; k=rsa; '', ''p='' @ rsa512] # []))
   \<and> keyRecord (Some ([''v=DKIM1; k=rsa; '', ''p='' @ rsa512] # []))
     = Some (''v=DKIM1;k=rsa;p='' @ rsa512)
   \<and> getPublicKey (nodeEnv\<lparr>parseDkimHeaders :=
         (\<lambda>s. if s = ''DNS: TXT;v=DKIM1;k=rsa;p='' @ rsa512 then sampleParse s else Map.empty)\<rparr>)
       ''DKIM'' ''small._domainkey.example.com'' None
     = getPublicKey nodeEnv ''DKIM'' ''small._domainkey.example.com'' None"
proof -
  let ?q = "\<lambda>s. if s = ''DNS: TXT;v=DKIM1;k=rsa;p='' @ rsa512 then sampleParse s else Map.empty"
  let ?f = "[''v=DKIM1; k=rsa; '', ''p='' @ rsa512]"
  have a: "resolver nodeEnv ''small._domainkey.example.com'' ''TXT'' = Inr (Some (?f # []))"
    by code_simp
  have r: "removeWhiteSpace (concat ?f) = ''v=DKIM1;k=rsa;p='' @ rsa512"
    by code_simp
  have p: "parserInput (''v=DKIM1;k=rsa;p='' @ rsa512) = ''DNS: TXT;v=DKIM1;k=rsa;p='' @ rsa512"
    by (simp add: parserInput_def)
  have b: "?q (parserInput (removeWhiteSpace (concat ?f)))
      = parseDkimHeaders nodeEnv (parserInput (removeWhiteSpace (concat ?f)))"
    unfolding r p by (simp add: nodeEnv_def)
  show ?thesis
    using getPublicKey_parser_input
      [where q = ?q and env = nodeEnv and type = "''DKIM''" and minBitLength = None, OF a b] a
    unfolding r by blast
qed

theorem getPublicKey_verbatim_counterexample:
  "keyRecord (Some [[''v=DKIM1; k=rsa; '', ''p=AB CD'']]) = Some ''v=DKIM1;k=rsa;p=ABCD''
   \<and> keyRecord (Some [[''v=DKIM1; k=rsa; '', ''p=AB CD'']])
       \<noteq> Some (concat [''v=DKIM1; k=rsa; '', ''p=AB CD''])"
  by code_simp




text \<open>
  The length check reads \<^verbatim>\<open>publicKey.modulusLength\<close>. For a key object without such a
  property the comparison \<^verbatim>\<open>undefined < 1024\<close> is false: where \<^verbatim>\<open>publicKeyPem\<close> is bound,
  an RSA key whose object does not report its length in this property is returned,
  however short it is.
\<close>

lemma getPublicKey_no_modulusLength:
  assumes "resolver env name ''TXT'' = Inr list"
    and "keyRecord list = Some r" and "r \<noteq> []"
    and "parseDkimHeaders env (parserInput r) = [''p'' \<mapsto> key]" and "key \<noteq> []"
    and "globalPublicKeyPem env"
    and "createPublicKey env (publicKeyPem key) = Inr k"
    and "asymmetricKeyType k = ''rsa''" and "modulusLength k = None"
  shows "getPublicKey env type name minBitLength = Inr \<lparr>publicKey = publicKeyPem key, rr = r\<rparr>"
  using assms by (simp add: getPublicKey_def loadKey_def tagValue_def Let_def)

text \<open>
  Claim C9 at its failing input. The record holds a well-formed Ed25519 key, for which the
  claim promises the result \<^verbatim>\<open>{ publicKey, rr }\<close>. In a plain Node.js process the call
  ends at line 264 with a \<^verbatim>\<open>ReferenceError\<close>, which carries none of the documented codes.
\<close>

theorem getPublicKey_valid_key_throws:
  "getPublicKey nodeEnv ''DKIM'' ''ed._domainkey.example.com'' None
     = Inl (ReferenceError ''publicKeyPem is not defined'')"
  by code_simp


section \<open>Properties of \<^verbatim>\<open>getAligment\<close>\<close>

lemma orgLoop_Some:
  "orgLoop env f ds = Some r \<longleftrightarrow>
     r = f \<and> (\<exists>d \<in> set ds. formatDomain env (orgDomain env d) = f)"
  by (induction ds) (auto simp: Let_def)

text \<open>
  Relaxed mode does what the specification says: the result is not \<^verbatim>\<open>false\<close> exactly when
  some candidate has the organizational domain of the From domain.
\<close>

lemma getAligment_relaxed:
  "getAligment env fromDomain domainList False \<noteq> None \<longleftrightarrow>
     (\<exists>d \<in> set domainList.
        formatDomain env (orgDomain env d) = formatDomain env (orgDomain env fromDomain))"
proof -
  have "orgLoop env f ds \<noteq> None \<longleftrightarrow> (\<exists>d \<in> set ds. formatDomain env (orgDomain env d) = f)"
    for f ds
    using orgLoop_Some [of env f ds] by auto
  then show ?thesis by (simp add: getAligment_def)
qed

text \<open>
  Strict mode accepts whatever relaxed mode accepts for the formatted From domain: the
  strict branch has no exit of its own.
\<close>

lemma getAligment_strict_falls_through:
  assumes "d \<in> set domainList"
    and "formatDomain env (orgDomain env d)
         = formatDomain env (orgDomain env (formatDomain env fromDomain))"
  shows "getAligment env fromDomain domainList True \<noteq> None"
proof -
  have "orgLoop env (formatDomain env (orgDomain env (formatDomain env fromDomain))) domainList
        \<noteq> None"
    using assms orgLoop_Some [of env _ domainList] by auto
  then show ?thesis
    by (auto simp: getAligment_def split: option.splits)
qed

text \<open>
  Claim C2 at its failing input. In strict mode the claim allows a result other than
  \<^verbatim>\<open>false\<close> only when a candidate is the From domain itself. For the From domain
  \<^verbatim>\<open>a.example.com\<close> and the one candidate \<^verbatim>\<open>b.example.com\<close> the code answers
  \<^verbatim>\<open>example.com\<close>, as it does in relaxed mode.
\<close>

theorem getAligment_strict_aligns_sibling:
  "getAligment sampleDomains ''a.example.com'' [''b.example.com''] True = Some ''example.com''
   \<and> formatDomain sampleDomains ''b.example.com'' \<noteq> formatDomain sampleDomains ''a.example.com''"
  by code_simp


section \<open>Properties of \<^verbatim>\<open>parseLogoFromX509\<close>\<close>

text \<open>
  Claim C10, as the code has it. For a certificate that \<^verbatim>\<open>Certificate.fromPEM\<close> can read,
  \<^verbatim>\<open>parseLogoFromX509\<close> returns \<^verbatim>\<open>false\<close> when the certificate has no DNS names, when
  it has no logotype extension with a value, and when that value lacks \<^verbatim>\<open>data:\<close> or lacks
  \<^verbatim>\<open>base64,\<close> at a word boundary. It returns an object only when all of these are there,
  and then the object holds the PEM text, the DNS names, and what gunzip makes of the
  text after the first \<^verbatim>\<open>base64,\<close>. The code does not ask that \<^verbatim>\<open>base64,\<close> follows
  \<^verbatim>\<open>data:\<close>: with both in the value the outcome is that of gunzip, an error included.
\<close>

theorem parseLogoFromX509_outcomes:
  assumes "fromPEM env pem = Inr cert"
  shows "(certAltNames cert = [] \<longrightarrow> parseLogoFromX509 env pem = Inr None)
       \<and> (logotypeValue cert = None \<longrightarrow> parseLogoFromX509 env pem = Inr None)
       \<and> (\<forall>v. logotypeValue cert = Some v
              \<and> (matchWord ''data:'' False v = None \<or> matchWord ''base64,'' False v = None)
            \<longrightarrow> parseLogoFromX509 env pem = Inr None)
       \<and> (\<forall>l. parseLogoFromX509 env pem = Inr (Some l) \<longrightarrow>
              logo_pem l = pem \<and> logo_altNames l = certAltNames cert \<and> certAltNames cert \<noteq> []
            \<and> (\<exists>v b64. logotypeValue cert = Some v \<and> matchWord ''data:'' False v \<noteq> None
                  \<and> matchWord ''base64,'' False v = Some b64
                  \<and> gunzipBase64 env b64 = Inr (logo_svg l)))"
proof -
  have 1: "certAltNames cert = [] \<longrightarrow> parseLogoFromX509 env pem = Inr None"
    using assms by (simp add: parseLogoFromX509_def)
  have 2: "logotypeValue cert = None \<longrightarrow> parseLogoFromX509 env pem = Inr None"
    using assms by (simp add: parseLogoFromX509_def)
  have 3: "parseLogoFromX509 env pem = Inr None"
    if "logotypeValue cert = Some v"
      and "matchWord ''data:'' False v = None \<or> matchWord ''base64,'' False v = None" for v
    using assms that by (auto simp add: parseLogoFromX509_def)
  have 4: "logo_pem l = pem \<and> logo_altNames l = certAltNames cert \<and> certAltNames cert \<noteq> []
            \<and> (\<exists>v b64. logotypeValue cert = Some v \<and> matchWord ''data:'' False v \<noteq> None
                  \<and> matchWord ''base64,'' False v = Some b64
                  \<and> gunzipBase64 env b64 = Inr (logo_svg l))"
    if "parseLogoFromX509 env pem = Inr (Some l)" for l
    using assms that
    by (auto simp add: parseLogoFromX509_def split: if_splits option.splits sum.splits)
  show ?thesis
    using 1 2 3 4 by blast
qed

theorem parseLogoFromX509_outcomes_witness:
  "parseLogoFromX509 sampleX509 ''no-names.pem'' = Inr None
   \<and> parseLogoFromX509 sampleX509 ''no-logotype.pem'' = Inr None
   \<and> parseLogoFromX509 sampleX509 ''no-payload.pem'' = Inr None
   \<and> parseLogoFromX509 sampleX509 ''vmc.pem''
       = Inr (Some \<lparr>logo_pem = ''vmc.pem'', logo_altNames = [''example.com''], logo_svg = ''<svg/>''\<rparr>)
   \<and> gunzipBase64 sampleX509 svgPayload = Inr ''<svg/>''"
proof -
  let ?noNames = "\<lparr>extensions = [logotype ([CHR 0x16] @ ''data:image/svg+xml;base64,'' @ svgPayload)]\<rparr>"
  let ?noLogo = "\<lparr>extensions = [sanExtension]\<rparr>"
  let ?noPayload = "\<lparr>extensions = [sanExtension, logotype ([CHR 0x16] @ ''data:image/svg+xml,<svg/>'')]\<rparr>"
  let ?vmc = "\<lparr>extensions =
               [sanExtension, logotype ([CHR 0x16] @ ''data:image/svg+xml;base64,'' @ svgPayload)]\<rparr>"
  let ?l = "\<lparr>logo_pem = ''vmc.pem'', logo_altNames = [''example.com''], logo_svg = ''<svg/>''\<rparr>"
  have a: "fromPEM sampleX509 ''no-names.pem'' = Inr ?noNames" by code_simp
  have a': "certAltNames ?noNames = []" by code_simp
  have b: "fromPEM sampleX509 ''no-logotype.pem'' = Inr ?noLogo" by code_simp
  have b': "logotypeValue ?noLogo = None" by code_simp
  have c: "fromPEM sampleX509 ''no-payload.pem'' = Inr ?noPayload" by code_simp
  have c': "logotypeValue ?noPayload = Some ([CHR 0x16] @ ''data:image/svg+xml,<svg/>'')"
    by code_simp
  have c'': "matchWord ''base64,'' False ([CHR 0x16] @ ''data:image/svg+xml,<svg/>'') = None"
    by code_simp
  have d: "fromPEM sampleX509 ''vmc.pem'' = Inr ?vmc" by code_simp
  have d': "parseLogoFromX509 sampleX509 ''vmc.pem'' = Inr (Some ?l)" by code_simp
  have d'': "matchWord ''base64,'' False ([CHR 0x16] @ ''data:image/svg+xml;base64,'' @ svgPayload)
      = Some svgPayload" by code_simp
  have 1: "parseLogoFromX509 sampleX509 ''no-names.pem'' = Inr None"
    using parseLogoFromX509_outcomes [OF a] a' by blast
  have 2: "parseLogoFromX509 sampleX509 ''no-logotype.pem'' = Inr None"
    using parseLogoFromX509_outcomes [OF b] b' by blast
  have 3: "parseLogoFromX509 sampleX509 ''no-payload.pem'' = Inr None"
    using parseLogoFromX509_outcomes [OF c] c' c'' by blast
  have "\<exists>v b64. logotypeValue ?vmc = Some v \<and> matchWord ''base64,'' False v = Some b64
          \<and> gunzipBase64 sampleX509 b64 = Inr (logo_svg ?l)"
    using parseLogoFromX509_outcomes [OF d] d' by blast
  moreover have "logotypeValue ?vmc = Some ([CHR 0x16] @ ''data:image/svg+xml;base64,'' @ svgPayload)"
    by code_simp
  ultimately have 4: "gunzipBase64 sampleX509 svgPayload = Inr ''<svg/>''"
    using d'' by auto
  show ?thesis
    using 1 2 3 4 d' by blast
qed

theorem parseLogoFromX509_raises_counterexample:
  "\<not> specDataUri ''base64,QUJD data:''
   \<and> fromPEM sampleX509 ''reversed.pem''
       = Inr \<lparr>extensions = [sanExtension, logotype ''base64,QUJD data:'']\<rparr>
   \<and> parseLogoFromX509 sampleX509 ''reversed.pem''
       = Inl (Error ''incorrect header check'' (Some ''Z_DATA_ERROR'') None)"
  by code_simp


section \<open>Properties of the SPF check\<close>

lemma limitedResolver_special:
  "specialQuery d t \<Longrightarrow> snd (limitedResolver u L s d t) = s"
  by (auto simp: limitedResolver_def specialQuery_def)
















lemma formatHeaders_unset:
  "formatHeaders (r\<lparr>resp_header := h, resp_info := i, resp_lookups := l\<rparr>) = formatHeaders r"
  by (simp add: formatHeaders_def)







section \<open>Properties of \<^verbatim>\<open>formatSignatureHeaderLine\<close>\<close>


























end
